theory Spec2Isabelle
  imports Complex_Main
begin

section \<open>The Setup screen: data\<close>

text \<open>
  The screen \<^verbatim>\<open>Setup\<close> of \<^verbatim>\<open>src/src/components/BigButton.tsx\<close> (second document of
  the file) keeps six pieces of React state and reads the authentication context. The
  handlers only store and forward coordinates, so a JavaScript number is a \<open>real\<close> here.
\<close>

record latLng =
  latitude :: real
  longitude :: real

record region = latLng +
  latitudeDelta :: real
  longitudeDelta :: real

text \<open>The fields of the GitHub profile that \<^verbatim>\<open>handleSignUp\<close> reads.\<close>

record github_user =
  login :: string
  avatar_url :: string
  bio :: "string option"
  company :: "string option"
  name :: "string option"

text \<open>The object literal handed to \<^verbatim>\<open>postUser\<close>: the five profile fields and the marker.\<close>

record new_user = github_user +
  coordinates :: latLng

text \<open>
  A promise may be rejected with any JavaScript value. The handlers tell three kinds apart:
  a string (\<^verbatim>\<open>typeof err === 'string'\<close>), an axios error (\<^verbatim>\<open>axios.isAxiosError(err)\<close>)
  carrying \<^verbatim>\<open>err.response?.status\<close> (absent when there is no response), and anything
  else, identified by a tag.
\<close>

datatype js_value =
  JString string
| AxiosError "int option"
| JOther string

datatype 'a settled = Fulfilled 'a | Rejected js_value

text \<open>
  \<^verbatim>\<open>AuthenticationContext\<close> (\<^verbatim>\<open>../context/AuthenticationContext\<close>) is not among the
  sources. The screen only calls \<^verbatim>\<open>setValue\<close> on the context object, and only when
  \<^verbatim>\<open>useContext\<close> has yielded one (\<^verbatim>\<open>authenticationContext?.setValue\<close>): the object is
  opaque here, and its absence is \<open>None\<close>.
\<close>

datatype authentication_context = AuthenticationContextObject

record setup_state =
  username :: string
  isAuthenticating :: bool
  markerLocation :: latLng
  currentRegion :: region
  mapLocked :: bool
  errorMessage :: "string option"
  authenticationContext :: "authentication_context option"

text \<open>
  The state of the first render. \<^verbatim>\<open>DEFAULT_LOCATION\<close> comes from \<^verbatim>\<open>../utils/location\<close>,
  which is not among the sources, so it is a parameter, as is the context.
\<close>

definition Setup :: "latLng \<Rightarrow> authentication_context option \<Rightarrow> setup_state" where
  "Setup DEFAULT_LOCATION ctx =
     \<lparr>username = '''',
      isAuthenticating = False,
      markerLocation = DEFAULT_LOCATION,
      currentRegion = \<lparr>latitude = latitude DEFAULT_LOCATION,
                       longitude = longitude DEFAULT_LOCATION,
                       latitudeDelta = 4 / 1000, longitudeDelta = 4 / 1000\<rparr>,
      mapLocked = True,
      errorMessage = None,
      authenticationContext = ctx\<rparr>"

section \<open>Effects\<close>

text \<open>
  Everything a handler does is a call of a state setter, of a remote service, of the
  context's \<^verbatim>\<open>setValue\<close> or of \<^verbatim>\<open>navigation.replace\<close>. A handler yields the list of
  these calls in the order in which they happen; \<open>apply_effect\<close> gives each its meaning
  on the screen's state. The remote calls, \<^verbatim>\<open>setValue\<close> and the navigation act outside
  the screen and leave its state alone: they are visible in the trace only, and they are
  taken not to throw.
\<close>

datatype effect =
  SetUsername string
| SetIsAuthenticating bool
| SetMarkerLocation latLng
| SetCurrentRegion region
| SetMapLocked bool
| SetErrorMessage "string option"
| GetGitHubUserInfo string
| PostUser new_user
| SetValue string
| NavigationReplace string

fun apply_effect :: "effect \<Rightarrow> setup_state \<Rightarrow> setup_state" where
  "apply_effect (SetUsername t) s = s\<lparr>username := t\<rparr>"
| "apply_effect (SetIsAuthenticating b) s = s\<lparr>isAuthenticating := b\<rparr>"
| "apply_effect (SetMarkerLocation c) s = s\<lparr>markerLocation := c\<rparr>"
| "apply_effect (SetCurrentRegion r) s = s\<lparr>currentRegion := r\<rparr>"
| "apply_effect (SetMapLocked b) s = s\<lparr>mapLocked := b\<rparr>"
| "apply_effect (SetErrorMessage m) s = s\<lparr>errorMessage := m\<rparr>"
| "apply_effect (GetGitHubUserInfo u) s = s"
| "apply_effect (PostUser p) s = s"
| "apply_effect (SetValue v) s = s"
| "apply_effect (NavigationReplace r) s = s"

fun run_effects :: "effect list \<Rightarrow> setup_state \<Rightarrow> setup_state" where
  "run_effects [] s = s"
| "run_effects (e # es) s = run_effects es (apply_effect e s)"

section \<open>Promises\<close>

text \<open>
  A promise that has settled: the effects performed on the way, and how it settled.
  \<open>then_p\<close>, \<open>catch_p\<close> and \<open>finally_p\<close> are \<^verbatim>\<open>.then\<close>, \<^verbatim>\<open>.catch\<close> and \<^verbatim>\<open>.finally\<close>.
\<close>

type_synonym 'a promise = "effect list \<times> 'a settled"

definition reject :: "js_value \<Rightarrow> 'a promise" where
  "reject e = ([], Rejected e)"

definition perform :: "effect list \<Rightarrow> unit promise" where
  "perform es = (es, Fulfilled ())"

definition then_p :: "'a promise \<Rightarrow> ('a \<Rightarrow> 'b promise) \<Rightarrow> 'b promise" where
  "then_p p f =
     (case p of
        (es, Fulfilled v) \<Rightarrow> (case f v of (es', r) \<Rightarrow> (es @ es', r))
      | (es, Rejected e) \<Rightarrow> (es, Rejected e))"

definition catch_p :: "'a promise \<Rightarrow> (js_value \<Rightarrow> 'a promise) \<Rightarrow> 'a promise" where
  "catch_p p f =
     (case p of
        (es, Fulfilled v) \<Rightarrow> (es, Fulfilled v)
      | (es, Rejected e) \<Rightarrow> (case f e of (es', r) \<Rightarrow> (es @ es', r)))"

definition finally_p :: "'a promise \<Rightarrow> unit promise \<Rightarrow> 'a promise" where
  "finally_p p h =
     (case p of (es, r) \<Rightarrow>
        (case h of
           (es', Fulfilled u) \<Rightarrow> (es @ es', r)
         | (es', Rejected e) \<Rightarrow> (es @ es', Rejected e)))"

section \<open>The remote services\<close>

text \<open>
  \<^verbatim>\<open>getGitHubUserInfo\<close> (\<^verbatim>\<open>../services/github\<close>) and \<^verbatim>\<open>postUser\<close>
  (\<^verbatim>\<open>../services/users\<close>) are not among the sources: they are parameters, each
  returning a promise that fulfils or rejects. The value \<^verbatim>\<open>postUser\<close> fulfils with is
  dropped by the source (\<^verbatim>\<open>.then(() => ...)\<close>).
\<close>

record services =
  getGitHubUserInfo :: "string \<Rightarrow> github_user settled"
  postUser :: "new_user \<Rightarrow> unit settled"

definition call_getGitHubUserInfo :: "services \<Rightarrow> string \<Rightarrow> github_user promise" where
  "call_getGitHubUserInfo svc u = ([GetGitHubUserInfo u], getGitHubUserInfo svc u)"

definition call_postUser :: "services \<Rightarrow> new_user \<Rightarrow> unit promise" where
  "call_postUser svc p = ([PostUser p], postUser svc p)"

fun isAxiosError :: "js_value \<Rightarrow> bool" where
  "isAxiosError (AxiosError st) = True"
| "isAxiosError (JString m) = False"
| "isAxiosError (JOther t) = False"

fun response_status :: "js_value \<Rightarrow> int option" where
  "response_status (AxiosError st) = st"
| "response_status (JString m) = None"
| "response_status (JOther t) = None"

section \<open>The handlers\<close>

text \<open>\<^verbatim>\<open>handleMapPress\<close> (lines 93-95); the event carries \<^verbatim>\<open>nativeEvent.coordinate\<close>.\<close>

record native_event =
  coordinate :: latLng

record map_event =
  nativeEvent :: native_event

definition handleMapPress :: "map_event \<Rightarrow> effect list" where
  "handleMapPress event = [SetMarkerLocation (coordinate (nativeEvent event))]"

text \<open>
  The effect hook (lines 78-87): when \<^verbatim>\<open>tryGetCurrentPosition\<close> fulfils, the marker and
  the centre of the region move there; when it rejects, nothing happens.
\<close>

definition useEffect_position :: "latLng settled \<Rightarrow> setup_state \<Rightarrow> effect list" where
  "useEffect_position r s =
     (case r of
        Fulfilled curPos \<Rightarrow>
          [SetMarkerLocation curPos,
           SetCurrentRegion ((currentRegion s)\<lparr>latitude := latitude curPos,
                                               longitude := longitude curPos\<rparr>)]
      | Rejected e \<Rightarrow> [])"

text \<open>The \<^verbatim>\<open>onChangeText\<close> callback of the text input (lines 171-174).\<close>

definition onChangeText :: "string \<Rightarrow> effect list" where
  "onChangeText t = [SetUsername t, SetErrorMessage None]"

text \<open>
  The promise chain that \<^verbatim>\<open>handleSignUp\<close> builds (lines 107-138). \<open>s\<close> is the state of
  the render whose closure the handler is: \<^verbatim>\<open>username\<close>, \<^verbatim>\<open>markerLocation\<close> and
  \<^verbatim>\<open>authenticationContext\<close> are read from it. The result is the promise that
  \<^verbatim>\<open>.finally\<close> returns, with the effects of the chain.
\<close>

definition signUpChain :: "services \<Rightarrow> setup_state \<Rightarrow> unit promise" where
  "signUpChain svc s =
     finally_p
       (catch_p
          (then_p
             (then_p
                (catch_p (call_getGitHubUserInfo svc (username s))
                   (\<lambda>err. if isAxiosError err \<and> response_status err = Some 404
                          then reject (JString ''There is no such username on GitHub. Please try again.'')
                          else reject err))
                (\<lambda>fromGitHub.
                   call_postUser svc
                     \<lparr>login = login fromGitHub,
                      avatar_url = avatar_url fromGitHub,
                      bio = bio fromGitHub,
                      company = company fromGitHub,
                      name = name fromGitHub,
                      coordinates = markerLocation s\<rparr>))
             (\<lambda>_. perform
                    ((case authenticationContext s of
                        None \<Rightarrow> []
                      | Some c \<Rightarrow> [SetValue (username s)])
                     @ [SetMapLocked False, NavigationReplace ''Main''])))
          (\<lambda>err. case err of
                   JString m \<Rightarrow> perform [SetErrorMessage (Some m)]
                 | AxiosError st \<Rightarrow>
                     perform [SetErrorMessage (Some ''Something went wrong. Please try again.'')]
                 | JOther t \<Rightarrow>
                     perform [SetErrorMessage (Some ''Something went wrong. Please try again.'')]))
       (perform [SetIsAuthenticating False])"

text \<open>
  An expression statement whose value is a promise: the promise is neither awaited nor
  returned, so its effects happen and the function goes on, whatever the promise settles
  to. A rejection left in such a promise reaches nobody (an unhandled rejection).
\<close>

definition unawaited :: "'a promise \<Rightarrow> unit promise" where
  "unawaited p = (case p of (es, r) \<Rightarrow> (es, Fulfilled ()))"

text \<open>
  \<^verbatim>\<open>handleSignUp\<close> (lines 105-139), an \<^verbatim>\<open>async\<close> function of two statements:
  \<^verbatim>\<open>setIsAuthenticating(true)\<close>, then the chain as an expression statement. The result is
  the promise that the caller gets, with the effects of the whole run. One invocation is
  followed on its own, without another handler running in between.
\<close>

definition handleSignUp :: "services \<Rightarrow> setup_state \<Rightarrow> unit promise" where
  "handleSignUp svc s =
     then_p (perform [SetIsAuthenticating True]) (\<lambda>_. unawaited (signUpChain svc s))"

text \<open>One invocation: the trace of its effects, and the state once the chain has settled.\<close>

definition trace :: "services \<Rightarrow> setup_state \<Rightarrow> effect list" where
  "trace svc s = fst (handleSignUp svc s)"

definition submitRegistration :: "services \<Rightarrow> setup_state \<Rightarrow> setup_state" where
  "submitRegistration svc s = run_effects (trace svc s) s"

text \<open>The state after the first \<open>k\<close> effects of an invocation.\<close>

definition state_after :: "nat \<Rightarrow> services \<Rightarrow> setup_state \<Rightarrow> setup_state" where
  "state_after k svc s = run_effects (take k (trace svc s)) s"

section \<open>Observations on a trace\<close>

text \<open>
  The targets of the \<^verbatim>\<open>navigation.replace\<close> calls, the names handed to \<^verbatim>\<open>setValue\<close>
  and the arguments of \<^verbatim>\<open>setErrorMessage\<close>, each in the order of the calls.
\<close>

fun navigations :: "effect list \<Rightarrow> string list" where
  "navigations [] = []"
| "navigations (NavigationReplace r # es) = r # navigations es"
| "navigations (e # es) = navigations es"

fun commits :: "effect list \<Rightarrow> string list" where
  "commits [] = []"
| "commits (SetValue v # es) = v # commits es"
| "commits (e # es) = commits es"

fun messages :: "effect list \<Rightarrow> string option list" where
  "messages [] = []"
| "messages (SetErrorMessage m # es) = m # messages es"
| "messages (e # es) = messages es"

text \<open>The object that \<^verbatim>\<open>handleSignUp\<close> hands to \<^verbatim>\<open>postUser\<close> for the profile \<open>g\<close>.\<close>

abbreviation posted :: "github_user \<Rightarrow> setup_state \<Rightarrow> new_user" where
  "posted g s \<equiv>
     \<lparr>login = login g, avatar_url = avatar_url g, bio = bio g, company = company g,
      name = name g, coordinates = markerLocation s\<rparr>"

section \<open>Sample inputs\<close>

text \<open>
  A lookup service that knows one user and answers 404 for every other name, a
  registration service that settles as told, and the screen after a name has been typed.
\<close>

definition octocat :: github_user where
  "octocat =
     \<lparr>login = ''octocat'',
      avatar_url = ''https://github.com/images/error/octocat_happy.gif'',
      bio = None, company = Some ''@github'', name = Some ''monalisa octocat''\<rparr>"

definition github :: "string \<Rightarrow> github_user settled" where
  "github u = (if u = ''octocat'' then Fulfilled octocat else Rejected (AxiosError (Some 404)))"

definition backend :: "unit settled \<Rightarrow> services" where
  "backend r = \<lparr>getGitHubUserInfo = github, postUser = (\<lambda>p. r)\<rparr>"

definition calgary :: latLng where
  "calgary = \<lparr>latitude = 51, longitude = - 114\<rparr>"

definition typed :: "string \<Rightarrow> authentication_context option \<Rightarrow> setup_state" where
  "typed t ctx = run_effects (onChangeText t) (Setup calgary ctx)"

section \<open>The three ways a run can go\<close>

lemmas sample_defs =
  typed_def Setup_def onChangeText_def backend_def github_def octocat_def calgary_def

lemmas chain_defs =
  submitRegistration_def state_after_def trace_def handleSignUp_def unawaited_def
  signUpChain_def then_p_def catch_p_def finally_p_def perform_def reject_def
  call_getGitHubUserInfo_def call_postUser_def

lemma handleSignUp_lookup_rejected:
  assumes "getGitHubUserInfo svc (username s) = Rejected e"
  shows "handleSignUp svc s =
    ([SetIsAuthenticating True, GetGitHubUserInfo (username s),
      SetErrorMessage (Some (
        if e = AxiosError (Some 404)
        then ''There is no such username on GitHub. Please try again.''
        else case e of JString m \<Rightarrow> m
             | AxiosError st \<Rightarrow> ''Something went wrong. Please try again.''
             | JOther t \<Rightarrow> ''Something went wrong. Please try again.'')),
      SetIsAuthenticating False], Fulfilled ())"
  using assms
  by (cases e)
     (simp_all add: handleSignUp_def unawaited_def signUpChain_def then_p_def catch_p_def finally_p_def perform_def
        reject_def call_getGitHubUserInfo_def)

lemma handleSignUp_post_rejected:
  assumes "getGitHubUserInfo svc (username s) = Fulfilled g"
    and "postUser svc (posted g s) = Rejected e"
  shows "handleSignUp svc s =
    ([SetIsAuthenticating True, GetGitHubUserInfo (username s), PostUser (posted g s),
      SetErrorMessage (Some (
        case e of JString m \<Rightarrow> m
        | AxiosError st \<Rightarrow> ''Something went wrong. Please try again.''
        | JOther t \<Rightarrow> ''Something went wrong. Please try again.'')),
      SetIsAuthenticating False], Fulfilled ())"
  using assms
  by (cases e)
     (simp_all add: handleSignUp_def unawaited_def signUpChain_def then_p_def catch_p_def finally_p_def perform_def
        reject_def call_getGitHubUserInfo_def call_postUser_def)

lemma handleSignUp_success:
  assumes "getGitHubUserInfo svc (username s) = Fulfilled g"
    and "postUser svc (posted g s) = Fulfilled ()"
  shows "handleSignUp svc s =
    ([SetIsAuthenticating True, GetGitHubUserInfo (username s), PostUser (posted g s)]
     @ (case authenticationContext s of None \<Rightarrow> [] | Some c \<Rightarrow> [SetValue (username s)])
     @ [SetMapLocked False, NavigationReplace ''Main'', SetIsAuthenticating False],
     Fulfilled ())"
  using assms
  by (simp add: handleSignUp_def unawaited_def signUpChain_def then_p_def catch_p_def finally_p_def perform_def
        reject_def call_getGitHubUserInfo_def call_postUser_def)

lemma outcome_cases:
  obtains (lookup_rejected) e where "getGitHubUserInfo svc (username s) = Rejected e"
  | (post_rejected) g e where "getGitHubUserInfo svc (username s) = Fulfilled g"
      and "postUser svc (posted g s) = Rejected e"
  | (success) g where "getGitHubUserInfo svc (username s) = Fulfilled g"
      and "postUser svc (posted g s) = Fulfilled ()"
proof (cases "getGitHubUserInfo svc (username s)")
  case (Fulfilled g)
  then show ?thesis
    using that(2,3) by (cases "postUser svc (posted g s)") auto
next
  case (Rejected e)
  then show ?thesis using that(1) by blast
qed

lemma signUpChain_fulfils: "snd (signUpChain svc s) = Fulfilled ()"
proof (cases "getGitHubUserInfo svc (username s)")
  case (Fulfilled g)
  then show ?thesis
    by (cases "postUser svc (posted g s)")
       (simp_all add: signUpChain_def then_p_def catch_p_def finally_p_def perform_def
          reject_def call_getGitHubUserInfo_def call_postUser_def split: js_value.split)
next
  case (Rejected e)
  then show ?thesis
    by (cases e)
       (simp_all add: signUpChain_def then_p_def catch_p_def finally_p_def perform_def
          reject_def call_getGitHubUserInfo_def)
qed

lemma handleSignUp_returns: "snd (handleSignUp svc s) = Fulfilled ()"
  by (simp add: handleSignUp_def unawaited_def then_p_def perform_def split: prod.split)

lemma trace_shape:
  "\<exists>mid. trace svc s =
       SetIsAuthenticating True # GetGitHubUserInfo (username s) # mid @ [SetIsAuthenticating False]
     \<and> length mid \<le> 4
     \<and> (\<forall>e \<in> set mid. \<forall>b. e \<noteq> SetIsAuthenticating b)"
proof (cases rule: outcome_cases [of svc s])
  case (lookup_rejected e)
  then show ?thesis
    using handleSignUp_lookup_rejected [of svc s e] by (simp add: trace_def)
next
  case (post_rejected g e)
  then show ?thesis
    using handleSignUp_post_rejected [of svc s g e] by (simp add: trace_def)
next
  case (success g)
  then show ?thesis
    using handleSignUp_success [of svc s g] by (simp add: trace_def split: option.split)
qed

lemma run_effects_append: "run_effects (xs @ ys) s = run_effects ys (run_effects xs s)"
  by (induction xs arbitrary: s) simp_all

lemma apply_effect_busy:
  "\<forall>b. e \<noteq> SetIsAuthenticating b \<Longrightarrow> isAuthenticating (apply_effect e s) = isAuthenticating s"
  by (cases e) auto

lemma run_effects_busy:
  "\<forall>e \<in> set es. \<forall>b. e \<noteq> SetIsAuthenticating b \<Longrightarrow>
     isAuthenticating (run_effects es s) = isAuthenticating s"
  by (induction es arbitrary: s) (simp_all add: apply_effect_busy)

lemma count_no_busy_write:
  "\<forall>e \<in> set mid. \<forall>b. e \<noteq> SetIsAuthenticating b \<Longrightarrow>
     count_list mid (SetIsAuthenticating b) = 0"
  by (induction mid) auto

lemma take_no_busy_write:
  "\<forall>e \<in> set mid. \<forall>b. e \<noteq> SetIsAuthenticating b \<Longrightarrow>
     \<forall>e \<in> set (take j (GetGitHubUserInfo u # mid)). \<forall>b. e \<noteq> SetIsAuthenticating b"
  by (cases j) (auto dest: in_set_takeD)

lemma submitRegistration_frame:
  "username (submitRegistration svc s) = username s
   \<and> markerLocation (submitRegistration svc s) = markerLocation s"
proof (cases rule: outcome_cases [of svc s])
  case (lookup_rejected e)
  then show ?thesis
    using handleSignUp_lookup_rejected [of svc s e]
    by (simp add: trace_def submitRegistration_def)
next
  case (post_rejected g e)
  then show ?thesis
    using handleSignUp_post_rejected [of svc s g e]
    by (simp add: trace_def submitRegistration_def)
next
  case (success g)
  then show ?thesis
    using handleSignUp_success [of svc s g]
    by (simp add: trace_def submitRegistration_def split: option.split)
qed

lemma failed_run_sets_message:
  "messages (trace svc s) \<noteq> [] \<Longrightarrow> \<exists>m. errorMessage (submitRegistration svc s) = Some m"
proof (cases rule: outcome_cases [of svc s])
  case (lookup_rejected e)
  then show ?thesis
    using handleSignUp_lookup_rejected [of svc s e]
    by (simp add: trace_def submitRegistration_def)
next
  case (post_rejected g e)
  then show ?thesis
    using handleSignUp_post_rejected [of svc s g e]
    by (simp add: trace_def submitRegistration_def)
next
  case (success g)
  assume "messages (trace svc s) \<noteq> []"
  with success show ?thesis
    using handleSignUp_success [of svc s g]
    by (simp add: trace_def split: option.splits)
qed

section \<open>A successful run\<close>

text \<open>
  C1, as the code has it: when the profile lookup fulfils and the registration
  fulfils, the run does not touch errorMessage (an unset errorMessage remains unset),
  mapLocked becomes false, navigation.replace is called exactly once, with "Main", and
  the name handed to the Session Store is the submitted username when the screen has an
  authentication context; when it has none, nothing is handed over.
\<close>

theorem C1_success:
  assumes "getGitHubUserInfo svc (username s) = Fulfilled g"
    and "postUser svc (posted g s) = Fulfilled ()"
  shows "errorMessage (submitRegistration svc s) = errorMessage s
    \<and> messages (trace svc s) = []
    \<and> mapLocked (submitRegistration svc s) = False
    \<and> navigations (trace svc s) = [''Main'']
    \<and> commits (trace svc s) =
        (case authenticationContext s of None \<Rightarrow> [] | Some c \<Rightarrow> [username s])"
  using handleSignUp_success [OF assms]
  by (simp add: submitRegistration_def trace_def split: option.split)

text \<open>
  The scenario of the specification: "octocat" is typed, the lookup and the registration
  succeed, and the screen has an authentication context.
\<close>

theorem C1_success_witness:
  "getGitHubUserInfo (backend (Fulfilled ()))
       (username (typed ''octocat'' (Some AuthenticationContextObject))) = Fulfilled octocat
   \<and> postUser (backend (Fulfilled ()))
       (posted octocat (typed ''octocat'' (Some AuthenticationContextObject))) = Fulfilled ()
   \<and> errorMessage (submitRegistration (backend (Fulfilled ()))
       (typed ''octocat'' (Some AuthenticationContextObject))) = None
   \<and> mapLocked (submitRegistration (backend (Fulfilled ()))
       (typed ''octocat'' (Some AuthenticationContextObject))) = False
   \<and> navigations (trace (backend (Fulfilled ()))
       (typed ''octocat'' (Some AuthenticationContextObject))) = [''Main'']
   \<and> commits (trace (backend (Fulfilled ()))
       (typed ''octocat'' (Some AuthenticationContextObject))) = [''octocat'']"
proof -
  have h1: "getGitHubUserInfo (backend (Fulfilled ()))
      (username (typed ''octocat'' (Some AuthenticationContextObject))) = Fulfilled octocat"
    by (simp add: sample_defs)
  have h2: "postUser (backend (Fulfilled ()))
      (posted octocat (typed ''octocat'' (Some AuthenticationContextObject))) = Fulfilled ()"
    by (simp add: sample_defs)
  show ?thesis
    using h1 h2 C1_success [OF h1 h2] by (simp add: typed_def Setup_def onChangeText_def)
qed

text \<open>
  C1 as stated fails where \<^verbatim>\<open>useContext\<close> yields no context object: the lookup and the
  registration succeed and the screen navigates to "Main", but \<^verbatim>\<open>setValue\<close> is never
  called, so no SessionIdentity is committed.
\<close>

theorem C1_counterexample:
  "getGitHubUserInfo (backend (Fulfilled ())) (username (typed ''octocat'' None))
     = Fulfilled octocat
   \<and> postUser (backend (Fulfilled ())) (posted octocat (typed ''octocat'' None)) = Fulfilled ()
   \<and> navigations (trace (backend (Fulfilled ())) (typed ''octocat'' None)) = [''Main'']
   \<and> commits (trace (backend (Fulfilled ())) (typed ''octocat'' None)) \<noteq> [''octocat'']
   \<and> commits (trace (backend (Fulfilled ())) (typed ''octocat'' None)) = []"
  by (simp add: sample_defs chain_defs)

section \<open>Failed runs\<close>

text \<open>
  C2: for every username whose lookup is rejected with an axios error of response
  status 404, the run ends with errorMessage equal to "There is no such username on
  GitHub. Please try again.", with isAuthenticating false, and without any navigation.
\<close>

theorem C2_not_found:
  assumes "getGitHubUserInfo svc (username s) = Rejected (AxiosError (Some 404))"
  shows "errorMessage (submitRegistration svc s) =
           Some ''There is no such username on GitHub. Please try again.''
    \<and> isAuthenticating (submitRegistration svc s) = False
    \<and> navigations (trace svc s) = []"
  using handleSignUp_lookup_rejected [OF assms]
  by (simp add: submitRegistration_def trace_def)

text \<open>The scenario of the specification: "doesnotexist123" is not a GitHub user.\<close>

theorem C2_not_found_witness:
  "getGitHubUserInfo (backend (Fulfilled ()))
       (username (typed ''doesnotexist123'' (Some AuthenticationContextObject)))
     = Rejected (AxiosError (Some 404))
   \<and> errorMessage (submitRegistration (backend (Fulfilled ()))
       (typed ''doesnotexist123'' (Some AuthenticationContextObject)))
     = Some ''There is no such username on GitHub. Please try again.''
   \<and> isAuthenticating (submitRegistration (backend (Fulfilled ()))
       (typed ''doesnotexist123'' (Some AuthenticationContextObject))) = False
   \<and> navigations (trace (backend (Fulfilled ()))
       (typed ''doesnotexist123'' (Some AuthenticationContextObject))) = []"
proof -
  have h: "getGitHubUserInfo (backend (Fulfilled ()))
      (username (typed ''doesnotexist123'' (Some AuthenticationContextObject)))
     = Rejected (AxiosError (Some 404))"
    by (simp add: sample_defs)
  show ?thesis
    using h C2_not_found [OF h] by simp
qed

text \<open>
  C3, as the code has it: for every lookup failure other than the 404 case and every
  registration failure, the run ends with isAuthenticating false, without navigation
  and without a name handed to the Session Store; errorMessage is the generic fallback
  "Something went wrong. Please try again." when the rejection value is not a string,
  and the rejection value itself when it is a string.
\<close>

theorem C3_other_failure:
  assumes "(getGitHubUserInfo svc (username s) = Rejected e \<and> e \<noteq> AxiosError (Some 404))
     \<or> (getGitHubUserInfo svc (username s) = Fulfilled g
        \<and> postUser svc (posted g s) = Rejected e)"
  shows "errorMessage (submitRegistration svc s) =
           Some (case e of JString m \<Rightarrow> m
                 | AxiosError st \<Rightarrow> ''Something went wrong. Please try again.''
                 | JOther t \<Rightarrow> ''Something went wrong. Please try again.'')
    \<and> isAuthenticating (submitRegistration svc s) = False
    \<and> navigations (trace svc s) = []
    \<and> commits (trace svc s) = []"
  using assms
proof (elim disjE conjE)
  assume "getGitHubUserInfo svc (username s) = Rejected e" and "e \<noteq> AxiosError (Some 404)"
  then show ?thesis
    using handleSignUp_lookup_rejected [of svc s e]
    by (simp add: submitRegistration_def trace_def)
next
  assume "getGitHubUserInfo svc (username s) = Fulfilled g"
    and "postUser svc (posted g s) = Rejected e"
  then show ?thesis
    using handleSignUp_post_rejected [of svc s g e]
    by (simp add: submitRegistration_def trace_def)
qed

text \<open>
  The scenario of the specification: the lookup succeeds and the registration fails with
  a network error, which is not a string.
\<close>

theorem C3_other_failure_witness:
  "((getGitHubUserInfo (backend (Rejected (JOther ''Network Error'')))
        (username (typed ''octocat'' (Some AuthenticationContextObject)))
        = Rejected (JOther ''Network Error'')
      \<and> JOther ''Network Error'' \<noteq> AxiosError (Some 404))
    \<or> (getGitHubUserInfo (backend (Rejected (JOther ''Network Error'')))
        (username (typed ''octocat'' (Some AuthenticationContextObject))) = Fulfilled octocat
      \<and> postUser (backend (Rejected (JOther ''Network Error'')))
        (posted octocat (typed ''octocat'' (Some AuthenticationContextObject)))
        = Rejected (JOther ''Network Error'')))
   \<and> errorMessage (submitRegistration (backend (Rejected (JOther ''Network Error'')))
        (typed ''octocat'' (Some AuthenticationContextObject)))
        = Some ''Something went wrong. Please try again.''
   \<and> isAuthenticating (submitRegistration (backend (Rejected (JOther ''Network Error'')))
        (typed ''octocat'' (Some AuthenticationContextObject))) = False
   \<and> navigations (trace (backend (Rejected (JOther ''Network Error'')))
        (typed ''octocat'' (Some AuthenticationContextObject))) = []
   \<and> commits (trace (backend (Rejected (JOther ''Network Error'')))
        (typed ''octocat'' (Some AuthenticationContextObject))) = []"
proof -
  have h: "(getGitHubUserInfo (backend (Rejected (JOther ''Network Error'')))
        (username (typed ''octocat'' (Some AuthenticationContextObject)))
        = Rejected (JOther ''Network Error'')
      \<and> JOther ''Network Error'' \<noteq> AxiosError (Some 404))
    \<or> (getGitHubUserInfo (backend (Rejected (JOther ''Network Error'')))
        (username (typed ''octocat'' (Some AuthenticationContextObject))) = Fulfilled octocat
      \<and> postUser (backend (Rejected (JOther ''Network Error'')))
        (posted octocat (typed ''octocat'' (Some AuthenticationContextObject)))
        = Rejected (JOther ''Network Error''))"
    by (simp add: sample_defs)
  show ?thesis
    using h C3_other_failure [OF h] by simp
qed

text \<open>
  C3 as stated fails where a service rejects with a string: the final \<^verbatim>\<open>.catch\<close> shows
  every string it receives (\<^verbatim>\<open>typeof err === 'string'\<close>), not only the one of the 404
  case. Here the registration is rejected with a string of its own.
\<close>

theorem C3_counterexample:
  "getGitHubUserInfo (backend (Rejected (JString ''Username is already registered'')))
       (username (typed ''octocat'' (Some AuthenticationContextObject))) = Fulfilled octocat
   \<and> postUser (backend (Rejected (JString ''Username is already registered'')))
       (posted octocat (typed ''octocat'' (Some AuthenticationContextObject)))
       = Rejected (JString ''Username is already registered'')
   \<and> errorMessage (submitRegistration (backend (Rejected (JString ''Username is already registered'')))
       (typed ''octocat'' (Some AuthenticationContextObject)))
       = Some ''Username is already registered''
   \<and> errorMessage (submitRegistration (backend (Rejected (JString ''Username is already registered'')))
       (typed ''octocat'' (Some AuthenticationContextObject)))
       \<noteq> Some ''Something went wrong. Please try again.''"
  by (simp add: sample_defs chain_defs)

section \<open>The busy flag\<close>

text \<open>
  C4: in every invocation the first effect sets isAuthenticating to true, the last
  one sets it to false, each of the two happens exactly once, isAuthenticating is true
  after every effect but the last, and false at the end, whether the run succeeds or
  either remote call fails.
\<close>

theorem C4_busy:
  "hd (trace svc s) = SetIsAuthenticating True
   \<and> last (trace svc s) = SetIsAuthenticating False
   \<and> count_list (trace svc s) (SetIsAuthenticating True) = 1
   \<and> count_list (trace svc s) (SetIsAuthenticating False) = 1
   \<and> (\<forall>k. 0 < k \<and> k < length (trace svc s) \<longrightarrow> isAuthenticating (state_after k svc s))
   \<and> isAuthenticating (submitRegistration svc s) = False"
proof -
  from trace_shape [of svc s] obtain mid where tr: "trace svc s =
      SetIsAuthenticating True # GetGitHubUserInfo (username s) # mid @ [SetIsAuthenticating False]"
    and mid: "\<forall>e \<in> set mid. \<forall>b. e \<noteq> SetIsAuthenticating b"
    by (elim exE conjE)
  have cnt: "count_list mid (SetIsAuthenticating b) = 0" for b
    using mid by (rule count_no_busy_write)
  have during: "isAuthenticating (state_after k svc s)"
    if "0 < k" "k < length (trace svc s)" for k
  proof -
    from that(1) obtain j where k: "k = Suc j" by (auto simp: gr0_conv_Suc)
    have "j \<le> Suc (length mid)" using that(2) tr k by simp
    then have tk: "take k (trace svc s) =
        SetIsAuthenticating True # take j (GetGitHubUserInfo (username s) # mid)"
      using tr k by (cases j) simp_all
    have "\<forall>e \<in> set (take j (GetGitHubUserInfo (username s) # mid)).
            \<forall>b. e \<noteq> SetIsAuthenticating b"
      using mid by (rule take_no_busy_write)
    then have "isAuthenticating (run_effects (take j (GetGitHubUserInfo (username s) # mid))
          (apply_effect (SetIsAuthenticating True) s))
        = isAuthenticating (apply_effect (SetIsAuthenticating True) s)"
      by (rule run_effects_busy)
    then show ?thesis
      by (simp add: state_after_def tk)
  qed
  have fin: "isAuthenticating (submitRegistration svc s) = False"
    by (simp add: submitRegistration_def tr run_effects_append)
  have h: "hd (trace svc s) = SetIsAuthenticating True" by (simp add: tr)
  have l: "last (trace svc s) = SetIsAuthenticating False" by (simp add: tr)
  have c1: "count_list (trace svc s) (SetIsAuthenticating True) = 1" by (simp add: tr cnt)
  have c2: "count_list (trace svc s) (SetIsAuthenticating False) = 1" by (simp add: tr cnt)
  show ?thesis
  proof (intro conjI allI impI)
    fix k assume "0 < k \<and> k < length (trace svc s)"
    then show "isAuthenticating (state_after k svc s)" using during [of k] by (elim conjE)
  qed (rule h l c1 c2 fin)+
qed

text \<open>After two of the effects of a successful run the flag is up; at the end it is down.\<close>

theorem C4_busy_witness:
  "0 < (2::nat)
   \<and> 2 < length (trace (backend (Fulfilled ())) (typed ''octocat'' (Some AuthenticationContextObject)))
   \<and> isAuthenticating (state_after 2 (backend (Fulfilled ()))
        (typed ''octocat'' (Some AuthenticationContextObject)))
   \<and> isAuthenticating (submitRegistration (backend (Fulfilled ()))
        (typed ''octocat'' (Some AuthenticationContextObject))) = False"
proof -
  have h: "0 < (2::nat)
    \<and> 2 < length (trace (backend (Fulfilled ())) (typed ''octocat'' (Some AuthenticationContextObject)))"
    by (simp add: sample_defs chain_defs)
  show ?thesis
    using h C4_busy [of "backend (Fulfilled ())" "typed ''octocat'' (Some AuthenticationContextObject)"]
    by blast
qed

section \<open>Error message and navigation\<close>

text \<open>
  C5: no invocation both calls setErrorMessage and navigates: in every trace one of
  the two kinds of call is missing.
\<close>

theorem C5_exclusive:
  "messages (trace svc s) = [] \<or> navigations (trace svc s) = []"
proof (cases rule: outcome_cases [of svc s])
  case (lookup_rejected e)
  then show ?thesis
    using handleSignUp_lookup_rejected [of svc s e] by (simp add: trace_def)
next
  case (post_rejected g e)
  then show ?thesis
    using handleSignUp_post_rejected [of svc s g e] by (simp add: trace_def)
next
  case (success g)
  then show ?thesis
    using handleSignUp_success [of svc s g] by (simp add: trace_def split: option.split)
qed

text \<open>
  C6, as the code has it: an invocation never clears errorMessage, neither when it
  starts (after the first effect errorMessage is what it was) nor later (no
  setErrorMessage(null) in the trace); it calls setErrorMessage exactly when the
  pipeline fails, that is unless both the lookup and the registration fulfil, and the
  errorMessage at the end is the message of that call, or the prior one if there was no
  call.
\<close>

theorem C6_error_only_on_failure:
  "None \<notin> set (messages (trace svc s))
   \<and> errorMessage (state_after 1 svc s) = errorMessage s
   \<and> (messages (trace svc s) = []) =
       (\<exists>g. getGitHubUserInfo svc (username s) = Fulfilled g
            \<and> postUser svc (posted g s) = Fulfilled ())
   \<and> errorMessage (submitRegistration svc s) =
       (case messages (trace svc s) of [] \<Rightarrow> errorMessage s | m # ms \<Rightarrow> m)"
proof (cases rule: outcome_cases [of svc s])
  case (lookup_rejected e)
  then show ?thesis
    using handleSignUp_lookup_rejected [of svc s e]
    by (simp add: trace_def submitRegistration_def state_after_def)
next
  case (post_rejected g e)
  then show ?thesis
    using handleSignUp_post_rejected [of svc s g e]
    by (simp add: trace_def submitRegistration_def state_after_def)
next
  case (success g)
  then show ?thesis
    using handleSignUp_success [of svc s g]
    by (auto simp add: trace_def submitRegistration_def state_after_def split: option.split)
qed

text \<open>
  C6 as stated fails: a run whose registration failed leaves the generic message; the
  next run does not clear it when it starts, and it is still there when that run has
  succeeded.
\<close>

theorem C6_counterexample:
  "errorMessage (submitRegistration (backend (Rejected (JOther ''Network Error'')))
      (typed ''octocat'' (Some AuthenticationContextObject)))
      = Some ''Something went wrong. Please try again.''
   \<and> errorMessage (state_after 1 (backend (Fulfilled ()))
        (submitRegistration (backend (Rejected (JOther ''Network Error'')))
           (typed ''octocat'' (Some AuthenticationContextObject))))
      = Some ''Something went wrong. Please try again.''
   \<and> errorMessage (state_after 1 (backend (Fulfilled ()))
        (submitRegistration (backend (Rejected (JOther ''Network Error'')))
           (typed ''octocat'' (Some AuthenticationContextObject)))) \<noteq> None"
  by (simp add: sample_defs chain_defs)

section \<open>Editing and map presses\<close>

text \<open>
  C7: for every text and every prior state, also one with an error message set,
  the text input's change handler overwrites username with the new text and clears
  errorMessage, at once and without any submission; nothing else changes.
\<close>

theorem C7_username_change_clears_error:
  "run_effects (onChangeText t) s = s\<lparr>username := t, errorMessage := None\<rparr>
   \<and> username (run_effects (onChangeText t) s) = t
   \<and> errorMessage (run_effects (onChangeText t) s) = None
   \<and> GetGitHubUserInfo u \<notin> set (onChangeText t)"
  by (simp add: onChangeText_def)

text \<open>
  C8: for every coordinate delivered by a map press or a point-of-interest tap and
  every prior state, handleMapPress sets markerLocation to that coordinate; there is
  no validation and no bounds check, and nothing else changes.
\<close>

theorem C8_map_press_sets_marker:
  "markerLocation (run_effects (handleMapPress event) s) = coordinate (nativeEvent event)
   \<and> run_effects (handleMapPress event) s
       = s\<lparr>markerLocation := coordinate (nativeEvent event)\<rparr>"
  by (simp add: handleMapPress_def)

section \<open>How an invocation settles\<close>

text \<open>
  C9: whatever the two remote calls do, nothing is propagated to the caller: the
  promise that handleSignUp returns fulfils, and so does the promise at the end of the
  chain, so that no rejection is left unhandled either. Every failure is absorbed into
  errorMessage: when the lookup is rejected, or the lookup fulfils and the registration
  is rejected, the run calls setErrorMessage exactly once, with the message for that
  rejection, this message is errorMessage at the end, and the run does not navigate;
  when both fulfil, no message is set and the run navigates to "Main".
\<close>

theorem C9_failures_absorbed:
  "snd (handleSignUp svc s) = Fulfilled ()
   \<and> snd (signUpChain svc s) = Fulfilled ()
   \<and> (\<forall>e. getGitHubUserInfo svc (username s) = Rejected e \<longrightarrow>
         (\<exists>m. m = (if e = AxiosError (Some 404)
                    then ''There is no such username on GitHub. Please try again.''
                    else case e of JString t \<Rightarrow> t
                         | AxiosError st \<Rightarrow> ''Something went wrong. Please try again.''
                         | JOther t \<Rightarrow> ''Something went wrong. Please try again.'')
            \<and> messages (trace svc s) = [Some m]
            \<and> errorMessage (submitRegistration svc s) = Some m
            \<and> navigations (trace svc s) = []))
   \<and> (\<forall>g e. getGitHubUserInfo svc (username s) = Fulfilled g
            \<and> postUser svc (posted g s) = Rejected e \<longrightarrow>
         (\<exists>m. m = (case e of JString t \<Rightarrow> t
                    | AxiosError st \<Rightarrow> ''Something went wrong. Please try again.''
                    | JOther t \<Rightarrow> ''Something went wrong. Please try again.'')
            \<and> messages (trace svc s) = [Some m]
            \<and> errorMessage (submitRegistration svc s) = Some m
            \<and> navigations (trace svc s) = []))
   \<and> (\<forall>g. getGitHubUserInfo svc (username s) = Fulfilled g
            \<and> postUser svc (posted g s) = Fulfilled () \<longrightarrow>
         messages (trace svc s) = [] \<and> navigations (trace svc s) = [''Main''])"
proof (intro conjI allI impI)
  show "snd (handleSignUp svc s) = Fulfilled ()"
    by (rule handleSignUp_returns)
  show "snd (signUpChain svc s) = Fulfilled ()"
    by (rule signUpChain_fulfils)
next
  fix e
  assume "getGitHubUserInfo svc (username s) = Rejected e"
  then show "\<exists>m. m = (if e = AxiosError (Some 404)
                    then ''There is no such username on GitHub. Please try again.''
                    else case e of JString t \<Rightarrow> t
                         | AxiosError st \<Rightarrow> ''Something went wrong. Please try again.''
                         | JOther t \<Rightarrow> ''Something went wrong. Please try again.'')
            \<and> messages (trace svc s) = [Some m]
            \<and> errorMessage (submitRegistration svc s) = Some m
            \<and> navigations (trace svc s) = []"
    using handleSignUp_lookup_rejected [of svc s e]
    by (simp add: trace_def submitRegistration_def)
next
  fix g e
  assume "getGitHubUserInfo svc (username s) = Fulfilled g
    \<and> postUser svc (posted g s) = Rejected e"
  then show "\<exists>m. m = (case e of JString t \<Rightarrow> t
                    | AxiosError st \<Rightarrow> ''Something went wrong. Please try again.''
                    | JOther t \<Rightarrow> ''Something went wrong. Please try again.'')
            \<and> messages (trace svc s) = [Some m]
            \<and> errorMessage (submitRegistration svc s) = Some m
            \<and> navigations (trace svc s) = []"
    using handleSignUp_post_rejected [of svc s g e]
    by (simp add: trace_def submitRegistration_def)
next
  fix g
  assume ok: "getGitHubUserInfo svc (username s) = Fulfilled g
    \<and> postUser svc (posted g s) = Fulfilled ()"
  then have tr: "trace svc s =
      [SetIsAuthenticating True, GetGitHubUserInfo (username s), PostUser (posted g s)]
      @ (case authenticationContext s of None \<Rightarrow> [] | Some c \<Rightarrow> [SetValue (username s)])
      @ [SetMapLocked False, NavigationReplace ''Main'', SetIsAuthenticating False]"
    using handleSignUp_success [of svc s g] by (simp add: trace_def)
  show "messages (trace svc s) = []"
    by (simp add: tr split: option.split)
  show "navigations (trace svc s) = [''Main'']"
    by (simp add: tr split: option.split)
qed

text \<open>
  The three outcomes at sample inputs: an unknown username, a registration that fails
  with a network error, and a run in which both calls succeed.
\<close>

theorem C9_failures_absorbed_witness:
  "(getGitHubUserInfo (backend (Fulfilled ()))
        (username (typed ''doesnotexist123'' (Some AuthenticationContextObject)))
        = Rejected (AxiosError (Some 404))
    \<and> snd (handleSignUp (backend (Fulfilled ()))
        (typed ''doesnotexist123'' (Some AuthenticationContextObject))) = Fulfilled ()
    \<and> messages (trace (backend (Fulfilled ()))
        (typed ''doesnotexist123'' (Some AuthenticationContextObject)))
        = [Some ''There is no such username on GitHub. Please try again.'']
    \<and> errorMessage (submitRegistration (backend (Fulfilled ()))
        (typed ''doesnotexist123'' (Some AuthenticationContextObject)))
        = Some ''There is no such username on GitHub. Please try again.'')
   \<and> (getGitHubUserInfo (backend (Rejected (JOther ''Network Error'')))
        (username (typed ''octocat'' (Some AuthenticationContextObject))) = Fulfilled octocat
    \<and> postUser (backend (Rejected (JOther ''Network Error'')))
        (posted octocat (typed ''octocat'' (Some AuthenticationContextObject)))
        = Rejected (JOther ''Network Error'')
    \<and> snd (handleSignUp (backend (Rejected (JOther ''Network Error'')))
        (typed ''octocat'' (Some AuthenticationContextObject))) = Fulfilled ()
    \<and> messages (trace (backend (Rejected (JOther ''Network Error'')))
        (typed ''octocat'' (Some AuthenticationContextObject)))
        = [Some ''Something went wrong. Please try again.'']
    \<and> errorMessage (submitRegistration (backend (Rejected (JOther ''Network Error'')))
        (typed ''octocat'' (Some AuthenticationContextObject)))
        = Some ''Something went wrong. Please try again.'')
   \<and> (getGitHubUserInfo (backend (Fulfilled ()))
        (username (typed ''octocat'' (Some AuthenticationContextObject))) = Fulfilled octocat
    \<and> postUser (backend (Fulfilled ()))
        (posted octocat (typed ''octocat'' (Some AuthenticationContextObject))) = Fulfilled ()
    \<and> snd (handleSignUp (backend (Fulfilled ()))
        (typed ''octocat'' (Some AuthenticationContextObject))) = Fulfilled ()
    \<and> messages (trace (backend (Fulfilled ()))
        (typed ''octocat'' (Some AuthenticationContextObject))) = []
    \<and> navigations (trace (backend (Fulfilled ()))
        (typed ''octocat'' (Some AuthenticationContextObject))) = [''Main''])"
proof -
  have a: "getGitHubUserInfo (backend (Fulfilled ()))
        (username (typed ''doesnotexist123'' (Some AuthenticationContextObject)))
        = Rejected (AxiosError (Some 404))"
    by (simp add: sample_defs)
  have b: "getGitHubUserInfo (backend (Rejected (JOther ''Network Error'')))
        (username (typed ''octocat'' (Some AuthenticationContextObject))) = Fulfilled octocat
    \<and> postUser (backend (Rejected (JOther ''Network Error'')))
        (posted octocat (typed ''octocat'' (Some AuthenticationContextObject)))
        = Rejected (JOther ''Network Error'')"
    by (simp add: sample_defs)
  have c: "getGitHubUserInfo (backend (Fulfilled ()))
        (username (typed ''octocat'' (Some AuthenticationContextObject))) = Fulfilled octocat
    \<and> postUser (backend (Fulfilled ()))
        (posted octocat (typed ''octocat'' (Some AuthenticationContextObject))) = Fulfilled ()"
    by (simp add: sample_defs)
  note A = C9_failures_absorbed [of "backend (Fulfilled ())"
      "typed ''doesnotexist123'' (Some AuthenticationContextObject)"]
  note B = C9_failures_absorbed [of "backend (Rejected (JOther ''Network Error''))"
      "typed ''octocat'' (Some AuthenticationContextObject)"]
  note C = C9_failures_absorbed [of "backend (Fulfilled ())"
      "typed ''octocat'' (Some AuthenticationContextObject)"]
  have A': "snd (handleSignUp (backend (Fulfilled ()))
        (typed ''doesnotexist123'' (Some AuthenticationContextObject))) = Fulfilled ()
    \<and> messages (trace (backend (Fulfilled ()))
        (typed ''doesnotexist123'' (Some AuthenticationContextObject)))
        = [Some ''There is no such username on GitHub. Please try again.'']
    \<and> errorMessage (submitRegistration (backend (Fulfilled ()))
        (typed ''doesnotexist123'' (Some AuthenticationContextObject)))
        = Some ''There is no such username on GitHub. Please try again.''"
    using A a by simp
  have B': "snd (handleSignUp (backend (Rejected (JOther ''Network Error'')))
        (typed ''octocat'' (Some AuthenticationContextObject))) = Fulfilled ()
    \<and> messages (trace (backend (Rejected (JOther ''Network Error'')))
        (typed ''octocat'' (Some AuthenticationContextObject)))
        = [Some ''Something went wrong. Please try again.'']
    \<and> errorMessage (submitRegistration (backend (Rejected (JOther ''Network Error'')))
        (typed ''octocat'' (Some AuthenticationContextObject)))
        = Some ''Something went wrong. Please try again.''"
    using B b by simp
  have C': "snd (handleSignUp (backend (Fulfilled ()))
        (typed ''octocat'' (Some AuthenticationContextObject))) = Fulfilled ()
    \<and> messages (trace (backend (Fulfilled ()))
        (typed ''octocat'' (Some AuthenticationContextObject))) = []
    \<and> navigations (trace (backend (Fulfilled ()))
        (typed ''octocat'' (Some AuthenticationContextObject))) = [''Main'']"
    using C c by simp
  from a b c A' B' C' show ?thesis by blast
qed

section \<open>A stale error message\<close>

text \<open>
  C10: the success path leaves errorMessage as it is. When a run has failed and set
  a message, and the user submits again without editing the username, a run that now
  succeeds sets no message, navigates to "Main", and ends with the message of the
  failed run still in errorMessage.
\<close>

theorem C10_stale_error_survives_success:
  assumes failed: "messages (trace svc1 s) \<noteq> []"
    and lookup: "getGitHubUserInfo svc2 (username s) = Fulfilled g"
    and post: "postUser svc2 (posted g s) = Fulfilled ()"
  shows "(\<exists>m. errorMessage (submitRegistration svc1 s) = Some m
            \<and> errorMessage (submitRegistration svc2 (submitRegistration svc1 s)) = Some m)
    \<and> messages (trace svc2 (submitRegistration svc1 s)) = []
    \<and> navigations (trace svc2 (submitRegistration svc1 s)) = [''Main'']"
proof -
  let ?s1 = "submitRegistration svc1 s"
  from failed obtain m where m: "errorMessage ?s1 = Some m"
    using failed_run_sets_message by blast
  have l: "getGitHubUserInfo svc2 (username ?s1) = Fulfilled g"
    using lookup by (simp add: submitRegistration_frame)
  have p: "postUser svc2 (posted g ?s1) = Fulfilled ()"
    using post by (simp add: submitRegistration_frame)
  have "errorMessage (submitRegistration svc2 ?s1) = errorMessage ?s1
    \<and> messages (trace svc2 ?s1) = [] \<and> navigations (trace svc2 ?s1) = [''Main'']"
    using handleSignUp_success [OF l p]
    by (simp add: submitRegistration_def [of svc2] trace_def [of svc2] split: option.split)
  with m show ?thesis by simp
qed

text \<open>
  The registration fails with a network error, then succeeds on the second press of
  "Sign Up": the screen navigates with the generic message still set.
\<close>

theorem C10_stale_error_survives_success_witness:
  "messages (trace (backend (Rejected (JOther ''Network Error'')))
       (typed ''octocat'' (Some AuthenticationContextObject))) \<noteq> []
   \<and> getGitHubUserInfo (backend (Fulfilled ()))
       (username (typed ''octocat'' (Some AuthenticationContextObject))) = Fulfilled octocat
   \<and> postUser (backend (Fulfilled ()))
       (posted octocat (typed ''octocat'' (Some AuthenticationContextObject))) = Fulfilled ()
   \<and> errorMessage (submitRegistration (backend (Fulfilled ()))
        (submitRegistration (backend (Rejected (JOther ''Network Error'')))
           (typed ''octocat'' (Some AuthenticationContextObject))))
       = Some ''Something went wrong. Please try again.''
   \<and> navigations (trace (backend (Fulfilled ()))
        (submitRegistration (backend (Rejected (JOther ''Network Error'')))
           (typed ''octocat'' (Some AuthenticationContextObject)))) = [''Main'']"
proof -
  have h1: "messages (trace (backend (Rejected (JOther ''Network Error'')))
      (typed ''octocat'' (Some AuthenticationContextObject))) \<noteq> []"
    by (simp add: sample_defs chain_defs)
  have h2: "getGitHubUserInfo (backend (Fulfilled ()))
      (username (typed ''octocat'' (Some AuthenticationContextObject))) = Fulfilled octocat"
    by (simp add: sample_defs)
  have h3: "postUser (backend (Fulfilled ()))
      (posted octocat (typed ''octocat'' (Some AuthenticationContextObject))) = Fulfilled ()"
    by (simp add: sample_defs)
  have e: "errorMessage (submitRegistration (backend (Rejected (JOther ''Network Error'')))
      (typed ''octocat'' (Some AuthenticationContextObject)))
      = Some ''Something went wrong. Please try again.''"
    by (simp add: sample_defs chain_defs)
  show ?thesis
    using h1 h2 h3 e C10_stale_error_survives_success [OF h1 h2 h3] by simp
qed

end
